theory Spec2Isabelle
  imports Complex_Main "HOL-Library.AList"
begin

section \<open>Python values and errors\<close>

text \<open>
  Floats are modelled as real numbers, so every statement below is about exact
  arithmetic. Exceptions are values of \<open>error\<close>; a function that can raise returns
  \<open>error + 'a\<close> with \<open>Inl\<close> for the exception, and an exception aborts the whole call.
\<close>

datatype error =
    NotImplementedError | ValueError | TypeError | IndexError | KeyError
  | AttributeError | ZeroDivisionError | RecursionError

text \<open>Python's slice \<open>xs[i:j]\<close> for \<open>0 \<le> i \<le> j\<close>.\<close>

definition slice :: "'a list \<Rightarrow> nat \<Rightarrow> nat \<Rightarrow> 'a list" where
  "slice xs i j = take (j - i) (drop i xs)"

section \<open>Probability sources (core.py, classes Probability and its subclasses)\<close>

text \<open>
  Probability objects are shared by reference: a complement holds its siblings, a
  time-varying source holds its per-cycle items, several nodes may hold one named
  parameter. They live in a store, a list indexed by address; a new object is
  appended. An address outside the store stands for a reference to something that
  is not a Probability (\<open>AttributeError\<close>).
\<close>

type_synonym paddr = nat

datatype prob =
    ProbabilityWithRange (prob: real) (dist_param_1: real) (dist_param_2: real)
      (distribution: string)
  | TimeVaringProbability (probs: "paddr list") (time: nat)
  | ComplementProbability (other_probs: "paddr list option")

type_synonym pstore = "prob list"

text \<open>
  \<open>ProbabilityWithRange.__init__\<close> with only \<open>prob\<close> given: both parameters default
  to \<open>prob\<close>, the distribution to uniform.
\<close>

definition new_ProbabilityWithRange :: "real \<Rightarrow> prob" where
  "new_ProbabilityWithRange p = ProbabilityWithRange p p p ''uniform''"

text \<open>
  \<open>value(time)\<close>. The first argument bounds the depth of the recursion, as the
  interpreter's recursion limit does: a complement that reaches itself through its
  siblings never returns a number. A time-varying source called with a cycle
  stores it as its cursor and reads the item at the cursor with no cycle argument;
  an index beyond the items raises \<open>IndexError\<close>. A complement whose siblings were
  never set iterates over \<open>None\<close> (\<open>TypeError\<close>). \<open>Probability_values\<close> is the list
  comprehension \<open>[p.value(time) for p in ps]\<close>, evaluated left to right.
\<close>

fun Probability_value :: "nat \<Rightarrow> pstore \<Rightarrow> paddr \<Rightarrow> nat option \<Rightarrow> error + real \<times> pstore"
  and Probability_values :: "nat \<Rightarrow> pstore \<Rightarrow> paddr list \<Rightarrow> nat option \<Rightarrow> error + real list \<times> pstore"
where
  "Probability_value 0 ps a t = Inl RecursionError"
| "Probability_value (Suc d) ps a t =
     (if length ps \<le> a then Inl AttributeError
      else case ps ! a of
        ProbabilityWithRange p _ _ _ \<Rightarrow> Inr (p, ps)
      | TimeVaringProbability items cur \<Rightarrow>
          (case t of
             None \<Rightarrow>
               (if cur < length items then Probability_value d ps (items ! cur) None
                else Inl IndexError)
           | Some t' \<Rightarrow>
               (if t' < length items
                then Probability_value d (ps[a := TimeVaringProbability items t']) (items ! t') None
                else Inl IndexError))
      | ComplementProbability None \<Rightarrow> Inl TypeError
      | ComplementProbability (Some others) \<Rightarrow>
          (case Probability_values d ps others t of
             Inl e \<Rightarrow> Inl e
           | Inr (vs, ps') \<Rightarrow> Inr (1 - sum_list vs, ps')))"
| "Probability_values d ps [] t = Inr ([], ps)"
| "Probability_values d ps (a # as) t =
     (case Probability_value d ps a t of
        Inl e \<Rightarrow> Inl e
      | Inr (v, ps1) \<Rightarrow>
          (case Probability_values d ps1 as t of
             Inl e \<Rightarrow> Inl e
           | Inr (vs, ps2) \<Rightarrow> Inr (v # vs, ps2)))"

text \<open>The depth given to every evaluation started by a node or the controller.\<close>

definition recursion_limit :: nat where
  "recursion_limit = 1000"

text \<open>
  \<open>ComplementProbability.set_other_probabilities\<close>: keeps every entry that is not
  the complement itself (identity of objects is equality of addresses).
\<close>

definition set_other_probabilities :: "pstore \<Rightarrow> paddr \<Rightarrow> paddr list \<Rightarrow> pstore" where
  "set_other_probabilities ps c other =
     ps[c := ComplementProbability (Some (filter (\<lambda>p. p \<noteq> c) other))]"

text \<open>
  \<open>ProbabilityWithRange.sample_value\<close>: the draw comes from numpy's generator, which
  is outside the repository; the model takes the drawn number as an argument.
\<close>

definition sample_value :: "pstore \<Rightarrow> paddr \<Rightarrow> real \<Rightarrow> pstore" where
  "sample_value ps a drawn =
     (case ps ! a of
        ProbabilityWithRange p d1 d2 kind \<Rightarrow> ps[a := ProbabilityWithRange drawn d1 d2 kind]
      | _ \<Rightarrow> ps)"


section \<open>Dictionaries\<close>

text \<open>
  A Python dict keeps its keys in insertion order and assigning to a present key
  keeps that key's position: this is \<open>AList.update\<close> on an association list.
  \<open>dict_merge d e\<close> is the display \<open>{**d, **e}\<close>, \<open>dict_pop\<close> is \<open>d.pop(k)\<close>,
  \<open>dict_get0\<close> is \<open>d.get(k, 0)\<close>, and \<open>dd_append\<close> is \<open>d[k].append(x)\<close> on a
  \<open>defaultdict(list)\<close>.
\<close>

definition dict_merge :: "('k \<times> 'v) list \<Rightarrow> ('k \<times> 'v) list \<Rightarrow> ('k \<times> 'v) list" where
  "dict_merge d e = fold (\<lambda>(k, v). AList.update k v) e d"

definition dict_pop :: "('k \<times> 'v) list \<Rightarrow> 'k \<Rightarrow> error + 'v \<times> ('k \<times> 'v) list" where
  "dict_pop d k = (case map_of d k of None \<Rightarrow> Inl KeyError | Some v \<Rightarrow> Inr (v, AList.delete k d))"

definition dict_get0 :: "('k \<times> real) list \<Rightarrow> 'k \<Rightarrow> real" where
  "dict_get0 d k = (case map_of d k of None \<Rightarrow> 0 | Some v \<Rightarrow> v)"

definition dd_get :: "('k \<times> 'a list) list \<Rightarrow> 'k \<Rightarrow> 'a list" where
  "dd_get d k = (case map_of d k of None \<Rightarrow> [] | Some l \<Rightarrow> l)"

definition dd_append :: "('k \<times> 'a list) list \<Rightarrow> 'k \<Rightarrow> 'a \<Rightarrow> ('k \<times> 'a list) list" where
  "dd_append d k x = AList.update k (dd_get d k @ [x]) d"

section \<open>Nodes (core.py, class Node and its subclasses)\<close>

text \<open>
  A node owns its children, so the owned tree is a datatype. The only child of a
  \<open>StateTransition\<close> is not owned: it is a reference to a state that the controller
  owns, modelled as the index of that state in the controller's \<open>children\<close>
  (\<open>None\<close>, or an index beyond that list, for a \<open>dst_state\<close> that is no such state).
  Every node of the tree has its \<open>controller\<close> set, because \<open>add_child\<close> and
  \<open>set_controller\<close> pass it down the owned tree; \<open>notify_controller\<close> therefore
  always reaches \<open>handle_node_message\<close>.
\<close>

type_synonym vars = "(string \<times> real) list"

datatype node =
    ChanceNode (node_name: string) (trans_prob: paddr) (variables: vars) "node list"
  | MarkovState (node_name: string) (trans_prob: paddr) (variables: vars) "node list"
      (initial_prob: "real list")
  | StateTransition (node_name: string) (trans_prob: paddr) (variables: vars) (dst: "nat option")
      (cumulative_probs: "real list") (cumulative_variables: "real list")

fun is_MarkovState :: "node \<Rightarrow> bool" where
  "is_MarkovState (MarkovState _ _ _ _ _) = True"
| "is_MarkovState _ = False"

text \<open>The owned children of a node; a transition owns none.\<close>

fun owned :: "node \<Rightarrow> node list" where
  "owned (ChanceNode _ _ _ ch) = ch"
| "owned (MarkovState _ _ _ ch _) = ch"
| "owned (StateTransition _ _ _ _ _ _) = []"

fun with_owned :: "node \<Rightarrow> node list \<Rightarrow> node" where
  "with_owned (ChanceNode n p vs _) ch = ChanceNode n p vs ch"
| "with_owned (MarkovState n p vs _ ip) ch = MarkovState n p vs ch ip"
| "with_owned (StateTransition n p vs d cp cv) ch = StateTransition n p vs d cp cv"

text \<open>
  What a node reports: a dict whose values are numbers, the probability window
  (a list) or the destination's name (a string).
\<close>

datatype pyval = Num real | Win "real list" | Str string

type_synonym payload = "(string \<times> pyval) list"

text \<open>
  The value of \<open>next_cycle_start_prob[key]\<close>: a number after seeding and after
  \<open>end_one_cycle\<close>, the list of this cycle's contributions in between.
\<close>

datatype mass = Scalar real | Contribs "real list"

record controller =
  total_cycles :: int
  count_method :: string
  discount_rate :: real
  model_time :: nat
  total_probs :: "(string \<times> real list) list"
  total_variables :: "(string \<times> real list) list"
  cycle_probs :: "(string \<times> real list) list"
  cycle_variables :: "(string \<times> real list) list"
  next_cycle_start_prob :: "(string \<times> mass) list"
  children :: "node list"

subsection \<open>The mediator: \<open>MarkovController.handle_node_message\<close>\<close>

text \<open>
  The dict display \<open>{'start': prob_data[0], 'end': prob_data[1], 'half': np.mean(prob_data)}\<close>
  evaluates all three entries, so a window shorter than two raises \<open>IndexError\<close>
  whatever the count method is; an unknown count method raises \<open>KeyError\<close>.
\<close>

definition select_prob :: "string \<Rightarrow> real list \<Rightarrow> error + real" where
  "select_prob method prob_data =
     (if length prob_data < 2 then Inl IndexError
      else if method = ''start'' then Inr (prob_data ! 0)
      else if method = ''end'' then Inr (prob_data ! 1)
      else if method = ''half'' then Inr (sum_list prob_data / real (length prob_data))
      else Inl KeyError)"

text \<open>
  The loop over the remaining items of the payload. A value that is not a number
  cannot be multiplied by a float (\<open>TypeError\<close>); a discount factor of zero has no
  quotient.
\<close>

fun add_variables :: "real \<Rightarrow> real \<Rightarrow> payload \<Rightarrow> (string \<times> real list) list
    \<Rightarrow> error + (string \<times> real list) list" where
  "add_variables p discount_factor [] cv = Inr cv"
| "add_variables p discount_factor ((key, v) # rest) cv =
     (case v of
        Num x \<Rightarrow>
          (if discount_factor = 0 then Inl ZeroDivisionError
           else add_variables p discount_factor rest (dd_append cv key ((x * p) / discount_factor)))
      | _ \<Rightarrow> Inl TypeError)"

text \<open>The part of \<open>handle_node_message\<close> after the branch on the node's class.\<close>

definition record_report :: "controller \<Rightarrow> string \<Rightarrow> real list \<Rightarrow> payload \<Rightarrow> error + controller" where
  "record_report c name prob_data data =
     (case select_prob (count_method c) prob_data of
        Inl e \<Rightarrow> Inl e
      | Inr p \<Rightarrow>
          (case add_variables p ((1 + discount_rate c) ^ model_time c) data (cycle_variables c) of
             Inl e \<Rightarrow> Inl e
           | Inr cv \<Rightarrow>
               Inr (c\<lparr>cycle_probs := dd_append (cycle_probs c) name p, cycle_variables := cv\<rparr>)))"

text \<open>
  \<open>self.next_cycle_start_prob[destination_name].append(x)\<close>: a missing key starts
  an empty list; a number has no \<open>append\<close>.
\<close>

definition mass_append :: "(string \<times> mass) list \<Rightarrow> string \<Rightarrow> real \<Rightarrow> error + (string \<times> mass) list" where
  "mass_append d k x =
     (case map_of d k of
        None \<Rightarrow> Inr (AList.update k (Contribs [x]) d)
      | Some (Contribs l) \<Rightarrow> Inr (AList.update k (Contribs (l @ [x])) d)
      | Some (Scalar _) \<Rightarrow> Inl AttributeError)"

text \<open>
  The keys of the controller's dicts are names, so a payload whose \<open>dst\<close> entry is
  not a string is refused here with \<open>TypeError\<close> (the source would use the value as
  a key); a \<open>prob\<close> entry that is not a list cannot be indexed.
\<close>

fun handle_node_message :: "controller \<Rightarrow> node \<Rightarrow> payload \<Rightarrow> error + controller" where
  "handle_node_message c (MarkovState name _ _ _ _) data =
     (case dict_pop data ''prob'' of
        Inl e \<Rightarrow> Inl e
      | Inr (Win prob_data, data1) \<Rightarrow> record_report c name prob_data data1
      | Inr (_, _) \<Rightarrow> Inl TypeError)"
| "handle_node_message c (StateTransition _ _ _ _ _ _) data =
     (case dict_pop data ''dst'' of
        Inl e \<Rightarrow> Inl e
      | Inr (dv, data1) \<Rightarrow>
          (case dict_pop data1 ''prob'' of
             Inl e \<Rightarrow> Inl e
           | Inr (Win prob_data, data2) \<Rightarrow>
               (case dv of
                  Str destination_name \<Rightarrow>
                    (if length prob_data < 2 then Inl IndexError
                     else case mass_append (next_cycle_start_prob c) destination_name (prob_data ! 1) of
                        Inl e \<Rightarrow> Inl e
                      | Inr n \<Rightarrow>
                          record_report (c\<lparr>next_cycle_start_prob := n\<rparr>) destination_name prob_data data2)
                | _ \<Rightarrow> Inl TypeError)
           | Inr (_, _) \<Rightarrow> Inl TypeError))"
| "handle_node_message c (ChanceNode _ _ _ _) data = Inr c"


subsection \<open>Propagation: \<open>forward\<close>\<close>

text \<open>
  \<open>MarkovState.forward\<close> passes its own Probability object as \<open>input_prob\<close>; every
  other caller passes a float. The product \<open>input_prob * v\<close> coerces the object by
  \<open>value()\<close> with no cycle argument.
\<close>

datatype inp = Flt real | Obj paddr

definition times :: "pstore \<Rightarrow> inp \<Rightarrow> real \<Rightarrow> error + real" where
  "times ps input_prob v =
     (case input_prob of
        Flt x \<Rightarrow> Inr (x * v)
      | Obj a \<Rightarrow>
          (case Probability_value recursion_limit ps a None of
             Inl e \<Rightarrow> Inl e
           | Inr (x, _) \<Rightarrow> Inr (x * v)))"

text \<open>
  \<open>list(input_variables.keys() | self.variables.keys())\<close>: the order in which a set
  of strings is listed is not fixed by the language; the model lists the keys
  without repetition, in one fixed order.
\<close>

definition union_keys :: "vars \<Rightarrow> vars \<Rightarrow> string list" where
  "union_keys ivars own = remdups (map fst ivars @ map fst own)"

text \<open>
  A child's \<open>forward\<close> is called with \<open>time=\<close>, \<open>input_prob=\<close> and the variables as
  further keyword arguments: a variable named like a parameter is a \<open>TypeError\<close>.
\<close>

definition kwargs_clash :: "vars \<Rightarrow> bool" where
  "kwargs_clash kw = (\<exists>k \<in> set (map fst kw). k = ''self'' \<or> k = ''time'' \<or> k = ''input_prob'')"

definition as_payload :: "vars \<Rightarrow> payload" where
  "as_payload kw = map (\<lambda>(k, v). (k, Num v)) kw"

text \<open>
  \<open>StateTransition.forward\<close>, in three parts: the history after the two appends,
  the output variables, and the dict sent to the controller.
\<close>

definition forward_history :: "nat \<Rightarrow> real \<Rightarrow> real list \<Rightarrow> real list" where
  "forward_history tm output_prob cum = (if tm = 0 then cum @ [0] else cum) @ [output_prob]"

definition transition_variables :: "vars \<Rightarrow> vars \<Rightarrow> vars \<Rightarrow> vars" where
  "transition_variables ivars own dest =
     map (\<lambda>k. (k, dict_get0 ivars k + dict_get0 own k + dict_get0 dest k)) (union_keys ivars own)"

definition transition_data :: "string \<Rightarrow> real list \<Rightarrow> vars \<Rightarrow> payload" where
  "transition_data dst_name window output_variables =
     dict_merge [(''dst'', Str dst_name), (''prob'', Win window)] (as_payload output_variables)"

text \<open>
  \<open>Node.forward\<close> (chance nodes) and \<open>StateTransition.forward\<close>. A \<open>MarkovState\<close>
  as a child is called with keyword arguments its \<open>forward(self, time)\<close> does
  not take. Each call returns the node as it has become, the controller after the
  messages it received, and the store.
\<close>

fun Node_forward :: "nat \<Rightarrow> inp \<Rightarrow> vars \<Rightarrow> controller \<Rightarrow> pstore \<Rightarrow> node
      \<Rightarrow> error + node \<times> controller \<times> pstore"
  and forward_children :: "nat \<Rightarrow> inp \<Rightarrow> vars \<Rightarrow> controller \<Rightarrow> pstore \<Rightarrow> node list
      \<Rightarrow> error + node list \<times> controller \<times> pstore"
where
  "Node_forward tm input_prob ivars c ps (ChanceNode name p own ch) =
     (case Probability_value recursion_limit ps p (Some tm) of
        Inl e \<Rightarrow> Inl e
      | Inr (v, ps1) \<Rightarrow>
          (case times ps1 input_prob v of
             Inl e \<Rightarrow> Inl e
           | Inr output_prob \<Rightarrow>
               (case forward_children tm (Flt output_prob)
                       (map (\<lambda>k. (k, dict_get0 ivars k + dict_get0 own k)) (union_keys ivars own))
                       c ps1 ch of
                  Inl e \<Rightarrow> Inl e
                | Inr (ch', c', ps') \<Rightarrow> Inr (ChanceNode name p own ch', c', ps'))))"
| "Node_forward tm input_prob ivars c ps (StateTransition name p own d cum cv) =
     (case Probability_value recursion_limit ps p (Some tm) of
        Inl e \<Rightarrow> Inl e
      | Inr (v, ps1) \<Rightarrow>
          (case times ps1 input_prob v of
             Inl e \<Rightarrow> Inl e
           | Inr output_prob \<Rightarrow>
               (case d of
                  None \<Rightarrow> Inl AttributeError
                | Some i \<Rightarrow>
                    (if length (children c) \<le> i then Inl AttributeError
                     else
                       let destination = children c ! i;
                           cum' = forward_history tm output_prob cum;
                           output_variables = transition_variables ivars own (variables destination)
                       in case handle_node_message c (StateTransition name p own d cum' cv)
                                 (transition_data (node_name destination)
                                    (slice cum' tm (tm + 2)) output_variables) of
                            Inl e \<Rightarrow> Inl e
                          | Inr c' \<Rightarrow> Inr (StateTransition name p own d cum' cv, c', ps1)))))"
| "Node_forward tm input_prob ivars c ps (MarkovState name p own ch ip) = Inl TypeError"
| "forward_children tm input_prob kw c ps [] = Inr ([], c, ps)"
| "forward_children tm input_prob kw c ps (n # ns) =
     (if kwargs_clash kw then Inl TypeError
      else case Node_forward tm input_prob kw c ps n of
        Inl e \<Rightarrow> Inl e
      | Inr (n', c1, ps1) \<Rightarrow>
          (case forward_children tm input_prob kw c1 ps1 ns of
             Inl e \<Rightarrow> Inl e
           | Inr (ns', c2, ps2) \<Rightarrow> Inr (n' # ns', c2, ps2)))"

subsection \<open>\<open>MarkovState.start\<close>\<close>

text \<open>
  The history after the appends of \<open>start\<close>, the slice
  \<open>self.initial_prob[time: time+2]\<close> taken from it, and the dict sent to the
  controller.
\<close>

definition start_history :: "nat \<Rightarrow> real \<Rightarrow> real list \<Rightarrow> real list" where
  "start_history tm cycle_start_prob ip = (if tm = 0 then ip @ [cycle_start_prob] else ip) @ [0]"

definition start_window :: "nat \<Rightarrow> real \<Rightarrow> real list \<Rightarrow> real list" where
  "start_window tm cycle_start_prob ip = slice (start_history tm cycle_start_prob ip) tm (tm + 2)"

definition start_data :: "real list \<Rightarrow> vars \<Rightarrow> payload" where
  "start_data window own = dict_merge [(''prob'', Win window)] (as_payload own)"

text \<open>
  \<open>start\<close> appends to the history, reports, replaces the state's probability by a
  new \<open>ProbabilityWithRange(cycle_start_prob)\<close> and runs \<open>MarkovState.forward\<close>,
  which hands every child that object and the state's variables set to zero.
\<close>

fun MarkovState_start :: "nat \<Rightarrow> real \<Rightarrow> controller \<Rightarrow> pstore \<Rightarrow> node
      \<Rightarrow> error + node \<times> controller \<times> pstore" where
  "MarkovState_start tm cycle_start_prob c ps (MarkovState name p own ch ip) =
     (let ip' = start_history tm cycle_start_prob ip
      in case handle_node_message c (MarkovState name p own ch ip')
                (start_data (start_window tm cycle_start_prob ip) own) of
           Inl e \<Rightarrow> Inl e
         | Inr c1 \<Rightarrow>
             (case forward_children tm (Obj (length ps)) (map (\<lambda>(k, v). (k, 0)) own) c1
                     (ps @ [new_ProbabilityWithRange cycle_start_prob]) ch of
                Inl e \<Rightarrow> Inl e
              | Inr (ch', c2, ps2) \<Rightarrow> Inr (MarkovState name (length ps) own ch' ip', c2, ps2)))"
| "MarkovState_start tm cycle_start_prob c ps _ = Inl NotImplementedError"

text \<open>
  \<open>on_controller_message\<close>: only a \<open>MarkovState\<close> implements it. A start mass that
  is still a list of contributions is not a number the state can use.
\<close>

definition on_controller_message :: "nat \<Rightarrow> mass \<Rightarrow> controller \<Rightarrow> pstore \<Rightarrow> node
      \<Rightarrow> error + node \<times> controller \<times> pstore" where
  "on_controller_message tm cycle_start_prob c ps target =
     (if \<not> is_MarkovState target then Inl NotImplementedError
      else case cycle_start_prob of
        Scalar m \<Rightarrow> MarkovState_start tm m c ps target
      | Contribs _ \<Rightarrow> Inl TypeError)"

subsection \<open>\<open>lookup\<close> and \<open>send_to_node\<close>\<close>

text \<open>
  \<open>lookup\<close> is a depth-first search by name; a transition matches only itself.
  The model returns where the first match is: the indices of the children to
  follow from the controller. \<open>node_at\<close> reads the node there and \<open>update_at\<close>
  stores what the node has become after handling a message.
\<close>

fun Node_lookup :: "string \<Rightarrow> node \<Rightarrow> nat list option"
  and lookup_children :: "string \<Rightarrow> nat \<Rightarrow> node list \<Rightarrow> nat list option"
where
  "Node_lookup name (ChanceNode n _ _ ch) =
     (if n = name then Some [] else lookup_children name 0 ch)"
| "Node_lookup name (MarkovState n _ _ ch _) =
     (if n = name then Some [] else lookup_children name 0 ch)"
| "Node_lookup name (StateTransition n _ _ _ _ _) = (if n = name then Some [] else None)"
| "lookup_children name i [] = None"
| "lookup_children name i (x # xs) =
     (case Node_lookup name x of
        Some path \<Rightarrow> Some (i # path)
      | None \<Rightarrow> lookup_children name (Suc i) xs)"

fun node_at :: "node list \<Rightarrow> nat list \<Rightarrow> node option" where
  "node_at ns [] = None"
| "node_at ns [i] = (if i < length ns then Some (ns ! i) else None)"
| "node_at ns (i # j # path) = (if i < length ns then node_at (owned (ns ! i)) (j # path) else None)"

fun update_at :: "node list \<Rightarrow> nat list \<Rightarrow> node \<Rightarrow> node list" where
  "update_at ns [] n' = ns"
| "update_at ns [i] n' = ns[i := n']"
| "update_at ns (i # j # path) n' =
     (if i < length ns
      then ns[i := with_owned (ns ! i) (update_at (owned (ns ! i)) (j # path) n')]
      else ns)"

text \<open>
  \<open>send_to_node\<close>: the controller is the root of the search and is named
  \<open>controller\<close>; its own \<open>on_controller_message\<close> is the unimplemented one of \<open>Node\<close>.
\<close>

definition send_to_node :: "controller \<Rightarrow> pstore \<Rightarrow> string \<Rightarrow> nat \<Rightarrow> mass
      \<Rightarrow> error + controller \<times> pstore" where
  "send_to_node c ps name tm cycle_start_prob =
     (if name = ''controller'' then Inl NotImplementedError
      else case lookup_children name 0 (children c) of
        None \<Rightarrow> Inl ValueError
      | Some path \<Rightarrow>
          (case node_at (children c) path of
             None \<Rightarrow> Inl ValueError
           | Some target \<Rightarrow>
               (case on_controller_message tm cycle_start_prob c ps target of
                  Inl e \<Rightarrow> Inl e
                | Inr (target', c', ps') \<Rightarrow>
                    Inr (c'\<lparr>children := update_at (children c') path target'\<rparr>, ps'))))"

subsection \<open>The cycle loop\<close>

fun send_all :: "controller \<Rightarrow> pstore \<Rightarrow> (string \<times> mass) list \<Rightarrow> error + controller \<times> pstore" where
  "send_all c ps [] = Inr (c, ps)"
| "send_all c ps ((name, cycle_start_prob) # rest) =
     (case send_to_node c ps name (model_time c) cycle_start_prob of
        Inl e \<Rightarrow> Inl e
      | Inr (c', ps') \<Rightarrow> send_all c' ps' rest)"

definition start_one_cycle :: "controller \<Rightarrow> pstore \<Rightarrow> error + controller \<times> pstore" where
  "start_one_cycle c ps =
     send_all (c\<lparr>next_cycle_start_prob := []\<rparr>) ps (next_cycle_start_prob c)"

definition np_sum :: "mass \<Rightarrow> real" where
  "np_sum m = (case m of Scalar x \<Rightarrow> x | Contribs l \<Rightarrow> sum_list l)"

definition append_sums :: "(string \<times> real list) list \<Rightarrow> (string \<times> real list) list
      \<Rightarrow> (string \<times> real list) list" where
  "append_sums cyc tot = fold (\<lambda>(key, l) acc. dd_append acc key (sum_list l)) cyc tot"

definition end_one_cycle :: "controller \<Rightarrow> controller" where
  "end_one_cycle c =
     c\<lparr>next_cycle_start_prob := map (\<lambda>(key, m). (key, Scalar (np_sum m))) (next_cycle_start_prob c),
       total_probs := append_sums (cycle_probs c) (total_probs c),
       total_variables := append_sums (cycle_variables c) (total_variables c),
       cycle_probs := [],
       cycle_variables := [],
       model_time := model_time c + 1\<rparr>"

fun cycles :: "nat \<Rightarrow> controller \<Rightarrow> pstore \<Rightarrow> error + controller \<times> pstore" where
  "cycles 0 c ps = Inr (c, ps)"
| "cycles (Suc n) c ps =
     (case start_one_cycle c ps of
        Inl e \<Rightarrow> Inl e
      | Inr (c1, ps1) \<Rightarrow> cycles n (end_one_cycle c1) ps1)"

subsection \<open>\<open>reset\<close>\<close>

text \<open>
  \<open>Node.reset\<close> calls \<open>reset_memory\<close> where the class has one and then resets the
  children; \<open>StateTransition.reset\<close> only calls its \<open>reset_memory\<close>.
\<close>

fun Node_reset :: "node \<Rightarrow> node" where
  "Node_reset (ChanceNode n p vs ch) = ChanceNode n p vs (map Node_reset ch)"
| "Node_reset (MarkovState n p vs ch ip) = MarkovState n p vs (map Node_reset ch) []"
| "Node_reset (StateTransition n p vs d cp cv) = StateTransition n p vs d [] []"

definition MarkovController_reset :: "controller \<Rightarrow> controller" where
  "MarkovController_reset c =
     c\<lparr>model_time := 0, total_probs := [], total_variables := [], cycle_probs := [],
       cycle_variables := [], next_cycle_start_prob := [],
       children := map Node_reset (children c)\<rparr>"

subsection \<open>\<open>run\<close>\<close>

text \<open>
  The seeding loop \<open>next_cycle_start_prob[state.node_name] = state.trans_prob.value(0)\<close>.
\<close>

fun seed :: "controller \<Rightarrow> pstore \<Rightarrow> node list \<Rightarrow> error + controller \<times> pstore" where
  "seed c ps [] = Inr (c, ps)"
| "seed c ps (state # rest) =
     (case Probability_value recursion_limit ps (trans_prob state) (Some 0) of
        Inl e \<Rightarrow> Inl e
      | Inr (v, ps') \<Rightarrow>
          seed (c\<lparr>next_cycle_start_prob :=
                    AList.update (node_name state) (Scalar v) (next_cycle_start_prob c)\<rparr>) ps' rest)"

text \<open>
  \<open>pd.DataFrame.from_dict\<close> builds one column per key and refuses columns of
  different lengths with \<open>ValueError\<close>; the model of a table is the dict itself.
\<close>

type_synonym table = "(string \<times> real list) list"

definition DataFrame_from_dict :: "(string \<times> real list) list \<Rightarrow> error + table" where
  "DataFrame_from_dict d =
     (case d of
        [] \<Rightarrow> Inr d
      | col # rest \<Rightarrow>
          (if list_all (\<lambda>col'. length (snd col') = length (snd col)) rest
           then Inr d else Inl ValueError))"

definition run :: "controller \<Rightarrow> pstore \<Rightarrow> error + (table \<times> table) \<times> controller \<times> pstore" where
  "run c ps =
     (let c0 = MarkovController_reset c
      in case seed c0 ps (children c0) of
           Inl e \<Rightarrow> Inl e
         | Inr (c1, ps1) \<Rightarrow>
             (case cycles (nat (total_cycles c1)) c1 ps1 of
                Inl e \<Rightarrow> Inl e
              | Inr (c2, ps2) \<Rightarrow>
                  (case DataFrame_from_dict (total_probs c2) of
                     Inl e \<Rightarrow> Inl e
                   | Inr prob_df \<Rightarrow>
                       (case DataFrame_from_dict (total_variables c2) of
                          Inl e \<Rightarrow> Inl e
                        | Inr variable_df \<Rightarrow> Inr ((prob_df, variable_df), c2, ps2)))))"


subsection \<open>\<open>init_prob\<close> and \<open>verify\<close>\<close>

text \<open>
  \<open>init_prob\<close> with no \<open>random_state\<close> (as \<open>parse_model\<close> calls it) samples nothing:
  it initialises the children and then gives the first child whose probability
  is a complement the probabilities of all the children of this node.
  \<open>StateTransition.init_prob\<close> does nothing in that case.
\<close>

definition is_complement :: "pstore \<Rightarrow> paddr \<Rightarrow> bool" where
  "is_complement ps a =
     (a < length ps \<and> (case ps ! a of ComplementProbability _ \<Rightarrow> True | _ \<Rightarrow> False))"

definition resolve_complement :: "pstore \<Rightarrow> node list \<Rightarrow> pstore" where
  "resolve_complement ps ch =
     (case find (\<lambda>child. is_complement ps (trans_prob child)) ch of
        None \<Rightarrow> ps
      | Some child \<Rightarrow> set_other_probabilities ps (trans_prob child) (map trans_prob ch))"

fun Node_init_prob :: "pstore \<Rightarrow> node \<Rightarrow> pstore"
  and init_children :: "pstore \<Rightarrow> node list \<Rightarrow> pstore"
where
  "Node_init_prob ps (ChanceNode _ _ _ ch) = resolve_complement (init_children ps ch) ch"
| "Node_init_prob ps (MarkovState _ _ _ ch _) = resolve_complement (init_children ps ch) ch"
| "Node_init_prob ps (StateTransition _ _ _ _ _ _) = ps"
| "init_children ps [] = ps"
| "init_children ps (n # ns) = init_children (Node_init_prob ps n) ns"

definition MarkovController_init_prob :: "controller \<Rightarrow> pstore \<Rightarrow> pstore" where
  "MarkovController_init_prob c ps =
     resolve_complement (init_children ps (children c)) (children c)"

text \<open>
  \<open>math.isclose(a, b, rel_tol=1e-9)\<close> with the default \<open>abs_tol = 0\<close>: the tolerance
  is relative to the larger magnitude, and the comparison is not strict.
\<close>

definition isclose :: "real \<Rightarrow> real \<Rightarrow> bool" where
  "isclose a b = (\<bar>a - b\<bar> \<le> (1 / 10 ^ 9) * max \<bar>a\<bar> \<bar>b\<bar>)"

text \<open>
  \<open>Node.verify\<close>: \<open>sum(child.trans_prob for child in self.children)\<close> coerces each
  probability by \<open>value()\<close> with no cycle argument. \<open>StateTransition.verify\<close> checks
  instead that its one child is a \<open>MarkovState\<close>; the first argument is the list
  of the controller's states, which the destination index refers to.
\<close>

fun Node_verify :: "node list \<Rightarrow> pstore \<Rightarrow> node \<Rightarrow> error + unit"
  and verify_children :: "node list \<Rightarrow> pstore \<Rightarrow> node list \<Rightarrow> error + unit"
  and verify_sum :: "node list \<Rightarrow> pstore \<Rightarrow> node list \<Rightarrow> error + unit"
where
  "Node_verify states ps (ChanceNode _ _ _ ch) = verify_sum states ps ch"
| "Node_verify states ps (MarkovState _ _ _ ch _) = verify_sum states ps ch"
| "Node_verify states ps (StateTransition _ _ _ d _ _) =
     (case d of
        None \<Rightarrow> Inl ValueError
      | Some i \<Rightarrow>
          (if i < length states \<and> is_MarkovState (states ! i) then Inr () else Inl ValueError))"
| "verify_children states ps [] = Inr ()"
| "verify_children states ps (n # ns) =
     (case Node_verify states ps n of
        Inl e \<Rightarrow> Inl e
      | Inr _ \<Rightarrow> verify_children states ps ns)"
| "verify_sum states ps ch =
     (if ch = [] then Inr ()
      else case Probability_values recursion_limit ps (map trans_prob ch) None of
        Inl e \<Rightarrow> Inl e
      | Inr (vs, _) \<Rightarrow>
          (if \<not> isclose (sum_list vs) 1 then Inl ValueError
           else verify_children states ps ch))"

definition MarkovController_verify :: "controller \<Rightarrow> pstore \<Rightarrow> error + unit" where
  "MarkovController_verify c ps = verify_sum (children c) ps (children c)"

section \<open>Vocabulary of the properties\<close>

text \<open>
  The key under which the controller files a report (the state's own name, or the
  \<open>dst\<close> entry of a transition's report) and the items left in the payload after
  the \<open>pop\<close>s, which the controller treats as variables.
\<close>

fun is_StateTransition :: "node \<Rightarrow> bool" where
  "is_StateTransition (StateTransition _ _ _ _ _ _) = True"
| "is_StateTransition _ = False"

fun report_key :: "node \<Rightarrow> payload \<Rightarrow> string option" where
  "report_key (MarkovState name _ _ _ _) data = Some name"
| "report_key (StateTransition _ _ _ _ _ _) data =
     (case map_of data ''dst'' of Some (Str d) \<Rightarrow> Some d | _ \<Rightarrow> None)"
| "report_key (ChanceNode _ _ _ _) data = None"

fun remaining :: "node \<Rightarrow> payload \<Rightarrow> payload" where
  "remaining (MarkovState _ _ _ _ _) data = AList.delete ''prob'' data"
| "remaining (StateTransition _ _ _ _ _ _) data = AList.delete ''prob'' (AList.delete ''dst'' data)"
| "remaining (ChanceNode _ _ _ _) data = data"

text \<open>A controller in its second cycle and a transition's report, used as examples.\<close>

definition example_controller :: controller where
  "example_controller =
     \<lparr>total_cycles = 2, count_method = ''half'', discount_rate = 1, model_time = 1,
      total_probs = [], total_variables = [(''cost'', [7])], cycle_probs = [],
      cycle_variables = [(''cost'', [3])], next_cycle_start_prob = [], children = []\<rparr>"

definition example_report :: payload where
  "example_report = [(''dst'', Str ''B''), (''prob'', Win [1, 0]), (''cost'', Num 50)]"

text \<open>A state whose only transition leads back to itself, after two cycles.\<close>

definition loop_states :: "node list" where
  "loop_states = [MarkovState ''A'' 0 [(''cost'', 1)]
                    [StateTransition ''a_to_a'' 1 [] (Some 0) [0, 1, 1] []] [1, 0, 0]]"

text \<open>
  Two states of which only the second has a \<open>utility\<close>; all probabilities are
  constants held in the store \<open>two_states_probs\<close>.
\<close>

definition two_states :: controller where
  "two_states =
     \<lparr>total_cycles = 1, count_method = ''half'', discount_rate = 0, model_time = 0,
      total_probs = [], total_variables = [], cycle_probs = [], cycle_variables = [],
      next_cycle_start_prob = [],
      children = [MarkovState ''A'' 0 [(''cost'', 50)]
                    [StateTransition ''a_to_b'' 2 [(''cost'', 2)] (Some 1) [] []] [],
                  MarkovState ''B'' 1 [(''cost'', 100), (''utility'', 7 / 10)]
                    [StateTransition ''b_to_b'' 2 [] (Some 1) [] []] []]\<rparr>"

definition two_states_probs :: pstore where
  "two_states_probs = [new_ProbabilityWithRange 1, new_ProbabilityWithRange 0, new_ProbabilityWithRange 1]"

text \<open>
  The history of a state that was reset and then started once in each of the
  cycles \<open>tm, tm + 1, \<dots>\<close> with the masses given.
\<close>

fun starts :: "nat \<Rightarrow> real list \<Rightarrow> real list \<Rightarrow> real list" where
  "starts tm [] ip = ip"
| "starts tm (m # ms) ip = starts (Suc tm) ms (start_history tm m ip)"

text \<open>A sibling group of two constants and one complement that is not yet resolved.\<close>

definition sibling_store :: pstore where
  "sibling_store = [new_ProbabilityWithRange (2 / 10), new_ProbabilityWithRange (3 / 10),
                  ComplementProbability None]"

text \<open>
  A two-cycle model: state \<open>A\<close> holds all the mass at first and sends half of
  it to \<open>B\<close> in every cycle; \<open>B\<close> keeps what it receives.
\<close>

definition split_model :: controller where
  "split_model =
     \<lparr>total_cycles = 2, count_method = ''half'', discount_rate = 0, model_time = 0,
      total_probs = [], total_variables = [], cycle_probs = [], cycle_variables = [],
      next_cycle_start_prob = [],
      children = [MarkovState ''A'' 0 []
                    [StateTransition ''a_to_a'' 2 [] (Some 0) [] [],
                     StateTransition ''a_to_b'' 3 [] (Some 1) [] []] [],
                  MarkovState ''B'' 1 []
                    [StateTransition ''b_to_b'' 4 [] (Some 1) [] []] []]\<rparr>"

definition split_probs :: pstore where
  "split_probs = [new_ProbabilityWithRange 1, new_ProbabilityWithRange 0,
                  new_ProbabilityWithRange (1 / 2), new_ProbabilityWithRange (1 / 2),
                  new_ProbabilityWithRange 1]"

text \<open>
  The nodes that \<open>verify\<close> visits below a node: the node and its owned
  descendants. \<open>children_of\<close> is \<open>self.children\<close> of the source, in which a
  transition lists its destination.
\<close>

fun subnodes :: "node \<Rightarrow> node list" where
  "subnodes (ChanceNode n p vs ch) = ChanceNode n p vs ch # concat (map subnodes ch)"
| "subnodes (MarkovState n p vs ch ip) = MarkovState n p vs ch ip # concat (map subnodes ch)"
| "subnodes (StateTransition n p vs d cp cv) = [StateTransition n p vs d cp cv]"

fun children_of :: "node list \<Rightarrow> node \<Rightarrow> node list" where
  "children_of states (StateTransition _ _ _ d _ _) =
     (case d of None \<Rightarrow> [] | Some i \<Rightarrow> if i < length states then [states ! i] else [])"
| "children_of states n = owned n"

text \<open>
  The two checks of \<open>verify\<close> as predicates: the children of a state or chance
  node sum to one (or there are none), and the child of a transition is a
  \<open>MarkovState\<close>.
\<close>

definition sum_ok :: "pstore \<Rightarrow> node list \<Rightarrow> bool" where
  "sum_ok ps ch =
     (ch = [] \<or>
      (case Probability_values recursion_limit ps (map trans_prob ch) None of
         Inl e \<Rightarrow> False
       | Inr (vs, st) \<Rightarrow> isclose (sum_list vs) 1))"

fun node_ok :: "node list \<Rightarrow> pstore \<Rightarrow> node \<Rightarrow> bool" where
  "node_ok states ps (ChanceNode _ _ _ ch) = sum_ok ps ch"
| "node_ok states ps (MarkovState _ _ _ ch _) = sum_ok ps ch"
| "node_ok states ps (StateTransition _ _ _ d _ _) =
     (case d of None \<Rightarrow> False | Some i \<Rightarrow> i < length states \<and> is_MarkovState (states ! i))"

text \<open>Two states with initial probabilities 0.6 and 0.4; every transition leads to the second.\<close>

definition uneven_model :: controller where
  "uneven_model =
     \<lparr>total_cycles = 1, count_method = ''half'', discount_rate = 0, model_time = 0,
      total_probs = [], total_variables = [], cycle_probs = [], cycle_variables = [],
      next_cycle_start_prob = [],
      children = [MarkovState ''A'' 0 []
                    [StateTransition ''a_to_b'' 2 [] (Some 1) [] []] [],
                  MarkovState ''B'' 1 []
                    [StateTransition ''b_to_b'' 2 [] (Some 1) [] []] []]\<rparr>"

definition uneven_probs :: pstore where
  "uneven_probs = [new_ProbabilityWithRange (6 / 10), new_ProbabilityWithRange (4 / 10),
                   new_ProbabilityWithRange 1]"

section \<open>Vocabulary of mass conservation\<close>

subsection \<open>Probabilities that do not depend on the run\<close>

text \<open>
  During a run the store changes in two ways only: a time-varying source moves
  its cursor, and every started state adds a new constant. \<open>extends ps ps'\<close> says
  that \<open>ps'\<close> comes from \<open>ps\<close> by such changes.
\<close>

fun same_source :: "prob \<Rightarrow> prob \<Rightarrow> bool" where
  "same_source (TimeVaringProbability items _) (TimeVaringProbability items' _) = (items = items')"
| "same_source p q = (p = q)"

definition extends :: "pstore \<Rightarrow> pstore \<Rightarrow> bool" where
  "extends ps ps' = (length ps \<le> length ps' \<and> (\<forall>a < length ps. same_source (ps ! a) (ps' ! a)))"





subsection \<open>What a cycle adds to the controller\<close>



definition selected :: "string \<Rightarrow> real \<Rightarrow> real \<Rightarrow> real" where
  "selected method w0 w1 =
     (if method = ''start'' then w0 else if method = ''end'' then w1 else (w0 + w1) / 2)"




subsection \<open>The owned tree\<close>

text \<open>
  \<open>stored\<close> is the mass a subtree sent on in its last cycle (the last entries of
  its transitions' histories); \<open>regular tm\<close> says that the histories have the
  lengths a run leaves at the beginning of cycle \<open>tm\<close>; \<open>shape\<close> forgets what a run
  changes in a node (the histories, and the probability of a state); \<open>targets\<close>
  lists the destinations of a subtree and \<open>names\<close> its node names.
\<close>

fun stored :: "node \<Rightarrow> real" where
  "stored (StateTransition _ _ _ _ cum _) = (if cum = [] then 0 else last cum)"
| "stored (ChanceNode _ _ _ ch) = sum_list (map stored ch)"
| "stored (MarkovState _ _ _ ch _) = sum_list (map stored ch)"

fun regular :: "nat \<Rightarrow> node \<Rightarrow> bool" where
  "regular tm (StateTransition _ _ _ _ cum _) = (length cum = (if tm = 0 then 0 else Suc tm))"
| "regular tm (ChanceNode _ _ _ ch) = list_all (regular tm) ch"
| "regular tm (MarkovState _ _ _ ch ip) =
     (length ip = (if tm = 0 then 0 else Suc tm) \<and> (if tm = 0 then True else last ip = 0)
      \<and> list_all (regular tm) ch)"

fun shape :: "node \<Rightarrow> node" where
  "shape (StateTransition n p vs d _ _) = StateTransition n p vs d [] []"
| "shape (ChanceNode n p vs ch) = ChanceNode n p vs (map shape ch)"
| "shape (MarkovState n p vs ch _) = MarkovState n 0 vs (map shape ch) []"










subsection \<open>The invariant of the cycle loop\<close>







subsection \<open>Closed models\<close>




section \<open>Properties\<close>

lemma dd_get_dd_append:
  "dd_get (dd_append d k x) k' = (if k' = k then dd_get d k @ [x] else dd_get d k')"
  by (simp add: dd_get_def dd_append_def update_conv')

lemma distinct_dd_append:
  "distinct (map fst d) \<Longrightarrow> distinct (map fst (dd_append d k x))"
  by (simp add: dd_append_def distinct_update)

lemma add_variables_get:
  "add_variables p df data cv = Inr cv' \<Longrightarrow> distinct (map fst data) \<Longrightarrow>
   dd_get cv' k = (case map_of data k of Some (Num v) \<Rightarrow> dd_get cv k @ [(v * p) / df] | _ \<Rightarrow> dd_get cv k)"
proof (induction data arbitrary: cv)
  case Nil
  then show ?case by simp
next
  case (Cons kv data)
  obtain key v where kv: "kv = (key, v)" by (cases kv)
  from Cons.prems(1) kv obtain x where v: "v = Num x" and df: "df \<noteq> 0"
    and rest: "add_variables p df data (dd_append cv key ((x * p) / df)) = Inr cv'"
    by (auto split: pyval.splits if_splits)
  from Cons.prems(2) kv have d: "distinct (map fst data)" and notin: "key \<notin> fst ` set data"
    by auto
  from notin have none: "map_of data key = None"
    by (simp add: map_of_eq_None_iff)
  show ?case
  proof (cases "k = key")
    case True
    with Cons.IH[OF rest d] none kv v show ?thesis
      by (simp add: dd_get_dd_append)
  next
    case False
    with Cons.IH[OF rest d] kv show ?thesis
      by (auto simp: dd_get_dd_append split: option.splits pyval.splits)
  qed
qed

lemma add_variables_nonzero:
  "add_variables p df data cv = Inr cv' \<Longrightarrow> data \<noteq> [] \<Longrightarrow> df \<noteq> 0"
  by (cases data) (auto split: pyval.splits if_splits)

lemma append_sums_get:
  "distinct (map fst cyc) \<Longrightarrow>
   dd_get (append_sums cyc tot) k =
     (case map_of cyc k of None \<Rightarrow> dd_get tot k | Some l \<Rightarrow> dd_get tot k @ [sum_list l])"
  unfolding append_sums_def
proof (induction cyc arbitrary: tot)
  case Nil
  then show ?case by simp
next
  case (Cons kl cyc)
  obtain key l where kl: "kl = (key, l)" by (cases kl)
  from Cons.prems kl have d: "distinct (map fst cyc)" and none: "map_of cyc key = None"
    by (auto simp: map_of_eq_None_iff)
  show ?case
    using Cons.IH[OF d, of "dd_append tot key (sum_list l)"] kl none
    by (auto simp: dd_get_dd_append split: option.splits)
qed

lemma handle_node_message_report:
  assumes "handle_node_message c n data = Inr c'"
    and "report_key n data = Some key"
  shows "\<exists>w c1. map_of data ''prob'' = Some (Win w)
           \<and> record_report c1 key w (remaining n data) = Inr c'
           \<and> cycle_probs c1 = cycle_probs c \<and> cycle_variables c1 = cycle_variables c
           \<and> count_method c1 = count_method c \<and> discount_rate c1 = discount_rate c
           \<and> model_time c1 = model_time c \<and> total_variables c1 = total_variables c"
proof (cases n)
  case (ChanceNode x11 x12 x13 x14)
  with assms show ?thesis by simp
next
  case (MarkovState name p vs ch ip)
  with assms show ?thesis
    by (auto simp: dict_pop_def split: option.splits pyval.splits sum.splits)
next
  case (StateTransition name p vs d cp cv)
  with assms show ?thesis
    by (auto simp: dict_pop_def split: option.splits pyval.splits sum.splits if_splits)
qed

lemma record_report_probs:
  assumes "record_report c key w data = Inr c'"
  shows "\<exists>p. select_prob (count_method c) w = Inr p
       \<and> (\<forall>k. dd_get (cycle_probs c') k = (if k = key then dd_get (cycle_probs c) key @ [p] else dd_get (cycle_probs c) k))
       \<and> add_variables p ((1 + discount_rate c) ^ model_time c) data (cycle_variables c) = Inr (cycle_variables c')
       \<and> total_variables c' = total_variables c"
  using assms
  by (auto simp: record_report_def dd_get_dd_append split: sum.splits)

text \<open>
  Claim C7. A report from a state or a transition whose window is \<open>[w0, w1]\<close>
  appends to the cycle's probability accumulator of its key: \<open>w0\<close> under count
  method \<open>start\<close>, \<open>w1\<close> under \<open>end\<close>, \<open>(w0 + w1) / 2\<close> under \<open>half\<close>; a call that
  returns had one of these three methods.
\<close>

theorem count_method_selects_scalar:
  assumes "handle_node_message c n data = Inr c'"
    and "map_of data ''prob'' = Some (Win [w0, w1])"
    and "report_key n data = Some key"
  shows "(count_method c = ''start'' \<longrightarrow> dd_get (cycle_probs c') key = dd_get (cycle_probs c) key @ [w0])
       \<and> (count_method c = ''end'' \<longrightarrow> dd_get (cycle_probs c') key = dd_get (cycle_probs c) key @ [w1])
       \<and> (count_method c = ''half'' \<longrightarrow> dd_get (cycle_probs c') key = dd_get (cycle_probs c) key @ [(w0 + w1) / 2])
       \<and> count_method c \<in> {''start'', ''end'', ''half''}"
proof -
  from handle_node_message_report[OF assms(1,3)] assms(2)
  obtain c1 where r: "record_report c1 key [w0, w1] (remaining n data) = Inr c'"
    and eq: "cycle_probs c1 = cycle_probs c" "count_method c1 = count_method c"
    by auto
  from record_report_probs[OF r] eq obtain p where
    p: "select_prob (count_method c) [w0, w1] = Inr p"
    and g: "dd_get (cycle_probs c') key = dd_get (cycle_probs c) key @ [p]"
    by auto
  from p g show ?thesis
    by (auto simp: select_prob_def split: if_splits)
qed

lemma add_variables_distinct:
  "add_variables p df data cv = Inr cv' \<Longrightarrow> distinct (map fst cv) \<Longrightarrow> distinct (map fst cv')"
proof (induction data arbitrary: cv)
  case Nil
  then show ?case by simp
next
  case (Cons kv data)
  obtain key v where kv: "kv = (key, v)" by (cases kv)
  from Cons.prems(1) kv obtain x where
    rest: "add_variables p df data (dd_append cv key ((x * p) / df)) = Inr cv'"
    by (auto split: pyval.splits if_splits)
  from Cons.IH[OF rest] Cons.prems(2) show ?case
    by (simp add: distinct_dd_append)
qed

lemma distinct_remaining: "distinct (map fst data) \<Longrightarrow> distinct (map fst (remaining n data))"
  by (cases n) (simp_all add: distinct_delete)

text \<open>
  Claim C8. A variable of raw value \<open>v\<close> left in a handled report, with selected
  probability \<open>p\<close>, appends exactly \<open>v * p / (1 + r) ^ t\<close> to the cycle's accumulator
  of that variable, and \<open>end_one_cycle\<close> appends the sum of that accumulator to the
  variable's output series.
\<close>

theorem discounted_contribution:
  assumes "handle_node_message c n data = Inr c'"
    and "report_key n data = Some key"
    and "distinct (map fst data)"
    and "distinct (map fst (cycle_variables c))"
    and "map_of data ''prob'' = Some (Win w)"
    and "select_prob (count_method c) w = Inr p"
    and "map_of (remaining n data) k = Some (Num v)"
  shows "(1 + discount_rate c) ^ model_time c \<noteq> 0
       \<and> dd_get (cycle_variables c') k =
           dd_get (cycle_variables c) k @ [(v * p) / (1 + discount_rate c) ^ model_time c]
       \<and> dd_get (total_variables (end_one_cycle c')) k =
           dd_get (total_variables c) k @ [sum_list (dd_get (cycle_variables c') k)]"
proof -
  let ?df = "(1 + discount_rate c) ^ model_time c"
  from handle_node_message_report[OF assms(1,2)] assms(5)
  obtain c1 where r: "record_report c1 key w (remaining n data) = Inr c'"
    and eq: "cycle_variables c1 = cycle_variables c" "count_method c1 = count_method c"
      "discount_rate c1 = discount_rate c" "model_time c1 = model_time c"
      "total_variables c1 = total_variables c"
    by auto
  from record_report_probs[OF r] eq assms(6) have
    av: "add_variables p ?df (remaining n data) (cycle_variables c) = Inr (cycle_variables c')"
    and tv: "total_variables c' = total_variables c"
    by auto
  from assms(7) have ne: "remaining n data \<noteq> []" by auto
  have nz: "?df \<noteq> 0" by (rule add_variables_nonzero[OF av ne])
  have g: "dd_get (cycle_variables c') k = dd_get (cycle_variables c) k @ [(v * p) / ?df]"
    using add_variables_get[OF av distinct_remaining[OF assms(3)], of k] assms(7) by simp
  have dc: "distinct (map fst (cycle_variables c'))"
    by (rule add_variables_distinct[OF av assms(4)])
  from g obtain l where l: "map_of (cycle_variables c') k = Some l"
    by (cases "map_of (cycle_variables c') k") (auto simp: dd_get_def)
  have "dd_get (total_variables (end_one_cycle c')) k =
          dd_get (total_variables c') k @ [sum_list l]"
    using append_sums_get[OF dc, of "total_variables c'" k] l
    by (simp add: end_one_cycle_def)
  moreover from l have "dd_get (cycle_variables c') k = l" by (simp add: dd_get_def)
  ultimately show ?thesis using nz g tv by simp
qed

text \<open>
  Claim C9. A report from a node that is neither a state nor a transition returns
  without an error and leaves the controller as it was, whatever the payload.
\<close>

theorem unrecognised_reporter_ignored:
  assumes "\<not> is_MarkovState n" and "\<not> is_StateTransition n"
  shows "handle_node_message c n data = Inr c"
  using assms by (cases n) simp_all

theorem count_method_selects_scalar_witness:
  "handle_node_message example_controller (StateTransition ''t'' 0 [] (Some 0) [1, 0] []) example_report
     = Inr (example_controller\<lparr>next_cycle_start_prob := [(''B'', Contribs [0])],
              cycle_probs := [(''B'', [1 / 2])], cycle_variables := [(''cost'', [3, 25 / 2])]\<rparr>)
   \<and> dd_get (cycle_probs (example_controller\<lparr>next_cycle_start_prob := [(''B'', Contribs [0])],
              cycle_probs := [(''B'', [1 / 2])], cycle_variables := [(''cost'', [3, 25 / 2])]\<rparr>)) ''B''
       = dd_get (cycle_probs example_controller) ''B'' @ [(1 + 0) / 2]"
proof -
  let ?c' = "example_controller\<lparr>next_cycle_start_prob := [(''B'', Contribs [0])],
              cycle_probs := [(''B'', [1 / 2])], cycle_variables := [(''cost'', [3, 25 / 2])]\<rparr>"
  have h: "handle_node_message example_controller (StateTransition ''t'' 0 [] (Some 0) [1, 0] [])
             example_report = Inr ?c'"
    by (simp add: example_controller_def example_report_def dict_pop_def mass_append_def
        record_report_def select_prob_def dd_append_def dd_get_def)
  have p: "map_of example_report ''prob'' = Some (Win [1, 0])"
    by (simp add: example_report_def)
  have k: "report_key (StateTransition ''t'' 0 [] (Some 0) [1, 0] []) example_report = Some ''B''"
    by (simp add: example_report_def)
  have m: "count_method example_controller = ''half''"
    by (simp add: example_controller_def)
  from count_method_selects_scalar[OF h p k] m h show ?thesis by simp
qed

theorem discounted_contribution_witness:
  "dd_get (cycle_variables (example_controller\<lparr>next_cycle_start_prob := [(''B'', Contribs [0])],
              cycle_probs := [(''B'', [1 / 2])], cycle_variables := [(''cost'', [3, 25 / 2])]\<rparr>)) ''cost''
     = dd_get (cycle_variables example_controller) ''cost''
         @ [(50 * (1 / 2)) / (1 + discount_rate example_controller) ^ model_time example_controller]
   \<and> dd_get (total_variables (end_one_cycle (example_controller\<lparr>next_cycle_start_prob := [(''B'', Contribs [0])],
              cycle_probs := [(''B'', [1 / 2])], cycle_variables := [(''cost'', [3, 25 / 2])]\<rparr>))) ''cost''
     = [7, 31 / 2]"
proof -
  let ?c' = "example_controller\<lparr>next_cycle_start_prob := [(''B'', Contribs [0])],
              cycle_probs := [(''B'', [1 / 2])], cycle_variables := [(''cost'', [3, 25 / 2])]\<rparr>"
  let ?n = "StateTransition ''t'' 0 [] (Some 0) [1, 0] []"
  have h: "handle_node_message example_controller ?n example_report = Inr ?c'"
    by (simp add: example_controller_def example_report_def dict_pop_def mass_append_def
        record_report_def select_prob_def dd_append_def dd_get_def)
  have k: "report_key ?n example_report = Some ''B''"
    by (simp add: example_report_def)
  have d1: "distinct (map fst example_report)"
    by (simp add: example_report_def)
  have d2: "distinct (map fst (cycle_variables example_controller))"
    by (simp add: example_controller_def)
  have p: "map_of example_report ''prob'' = Some (Win [1, 0])"
    by (simp add: example_report_def)
  have s: "select_prob (count_method example_controller) [1, 0] = Inr (1 / 2)"
    by (simp add: example_controller_def select_prob_def)
  have v: "map_of (remaining ?n example_report) ''cost'' = Some (Num 50)"
    by (simp add: example_report_def)
  from discounted_contribution[OF h k d1 d2 p s v] show ?thesis
    by (simp add: example_controller_def dd_get_def)
qed

theorem unrecognised_reporter_ignored_witness:
  "\<not> is_MarkovState (ChanceNode ''k1'' 0 [(''cost'', 20)] [])
   \<and> \<not> is_StateTransition (ChanceNode ''k1'' 0 [(''cost'', 20)] [])
   \<and> handle_node_message example_controller (ChanceNode ''k1'' 0 [(''cost'', 20)] []) example_report
       = Inr example_controller"
  using unrecognised_reporter_ignored[of "ChanceNode ''k1'' 0 [(''cost'', 20)] []"
      example_controller example_report]
  by simp

lemma with_owned_fields:
  "node_name (with_owned n ch) = node_name n" "trans_prob (with_owned n ch) = trans_prob n"
  "variables (with_owned n ch) = variables n" "is_MarkovState (with_owned n ch) = is_MarkovState n"
  "is_MarkovState n \<Longrightarrow> initial_prob (with_owned n ch) = initial_prob n"
  by (cases n; simp)+

text \<open>
  Claim C10. \<open>reset\<close> on a transition empties the transition's two histories and
  nothing else: it does not follow \<open>dst\<close>. Stored back at its place in the
  controller's tree, it leaves the destination state a \<open>MarkovState\<close> with the
  same occupancy history, name, probability and variables. \<open>Node_reset\<close> is a
  total function by recursion on the owned tree, so it returns on a model whose
  transitions form a cycle (the witness resets a state with a self-loop).
\<close>

theorem StateTransition_reset_frame:
  assumes "node_at states path = Some tr" and "is_StateTransition tr"
    and "dst tr = Some i" and "i < length states" and "is_MarkovState (states ! i)"
  shows "Node_reset tr = StateTransition (node_name tr) (trans_prob tr) (variables tr) (dst tr) [] []
       \<and> length (update_at states path (Node_reset tr)) = length states
       \<and> is_MarkovState (update_at states path (Node_reset tr) ! i)
       \<and> initial_prob (update_at states path (Node_reset tr) ! i) = initial_prob (states ! i)
       \<and> node_name (update_at states path (Node_reset tr) ! i) = node_name (states ! i)
       \<and> trans_prob (update_at states path (Node_reset tr) ! i) = trans_prob (states ! i)
       \<and> variables (update_at states path (Node_reset tr) ! i) = variables (states ! i)"
proof -
  have r: "Node_reset tr = StateTransition (node_name tr) (trans_prob tr) (variables tr) (dst tr) [] []"
    using assms(2) by (cases tr) simp_all
  show ?thesis
  proof (cases path)
    case Nil
    with assms(1) show ?thesis by simp
  next
    case (Cons j rest)
    show ?thesis
    proof (cases rest)
      case Nil
      with Cons assms(1) have j: "j < length states" "states ! j = tr"
        by (auto split: if_splits)
      with assms(2,5) have "j \<noteq> i" by (cases tr) auto
      with Cons Nil r assms(5) show ?thesis by simp
    next
      case (Cons j' rest')
      with \<open>path = j # rest\<close> assms(1) have j: "j < length states"
        by (auto split: if_splits)
      show ?thesis
        using r \<open>path = j # rest\<close> Cons j assms(4,5)
        by (cases "j = i") (simp_all add: with_owned_fields)
    qed
  qed
qed

theorem StateTransition_reset_frame_witness:
  "node_at loop_states [0, 0] = Some (StateTransition ''a_to_a'' 1 [] (Some 0) [0, 1, 1] [])
   \<and> Node_reset (StateTransition ''a_to_a'' 1 [] (Some 0) [0, 1, 1] [])
       = StateTransition ''a_to_a'' 1 [] (Some 0) [] []
   \<and> update_at loop_states [0, 0] (Node_reset (StateTransition ''a_to_a'' 1 [] (Some 0) [0, 1, 1] []))
       = [MarkovState ''A'' 0 [(''cost'', 1)] [StateTransition ''a_to_a'' 1 [] (Some 0) [] []] [1, 0, 0]]
   \<and> initial_prob (update_at loop_states [0, 0]
         (Node_reset (StateTransition ''a_to_a'' 1 [] (Some 0) [0, 1, 1] [])) ! 0) = [1, 0, 0]
   \<and> map Node_reset loop_states
       = [MarkovState ''A'' 0 [(''cost'', 1)] [StateTransition ''a_to_a'' 1 [] (Some 0) [] []] []]"
proof -
  let ?tr = "StateTransition ''a_to_a'' 1 [] (Some 0) [0, 1, 1] []"
  have a: "node_at loop_states [0, 0] = Some ?tr" by (simp add: loop_states_def)
  have b: "is_StateTransition ?tr" by simp
  have c: "dst ?tr = Some 0" by simp
  have d: "0 < length loop_states" by (simp add: loop_states_def)
  have e: "is_MarkovState (loop_states ! 0)" by (simp add: loop_states_def)
  from StateTransition_reset_frame[OF a b c d e] a show ?thesis
    by (simp add: loop_states_def)
qed

lemma Probability_value_numeral:
  "Probability_value (numeral k) ps a t =
     (if length ps \<le> a then Inl AttributeError
      else case ps ! a of
        ProbabilityWithRange p _ _ _ \<Rightarrow> Inr (p, ps)
      | TimeVaringProbability items cur \<Rightarrow>
          (case t of
             None \<Rightarrow>
               (if cur < length items then Probability_value (pred_numeral k) ps (items ! cur) None
                else Inl IndexError)
           | Some t' \<Rightarrow>
               (if t' < length items
                then Probability_value (pred_numeral k) (ps[a := TimeVaringProbability items t'])
                       (items ! t') None
                else Inl IndexError))
      | ComplementProbability None \<Rightarrow> Inl TypeError
      | ComplementProbability (Some others) \<Rightarrow>
          (case Probability_values (pred_numeral k) ps others t of
             Inl e \<Rightarrow> Inl e
           | Inr (vs, ps') \<Rightarrow> Inr (1 - sum_list vs, ps')))"
  by (simp add: numeral_eq_Suc)

text \<open>
  Claim C3 (the code departs from it). The keys of a transition's output
  variables are those of the input and of the transition itself; the destination's
  variables are added for these keys only. A key that only the destination has
  (\<open>utility\<close> below) is not reported: the controller's accumulator holds \<open>cost\<close>
  alone after the transition's report.
\<close>

theorem destination_only_variable_dropped:
  "transition_variables [(''cost'', 0)] [(''cost'', 2)] [(''cost'', 100), (''utility'', 7 / 10)]
     = [(''cost'', 102)]
   \<and> map_sum id (\<lambda>(n, c, ps). cycle_variables c)
        (Node_forward 0 (Flt 1) [(''cost'', 0)] two_states two_states_probs
           (StateTransition ''a_to_b'' 2 [(''cost'', 2)] (Some 1) [] []))
     = Inr [(''cost'', [51])]"
  by (simp add: transition_variables_def union_keys_def dict_get0_def two_states_def
      two_states_probs_def recursion_limit_def Probability_value_numeral new_ProbabilityWithRange_def times_def
      forward_history_def slice_def transition_data_def dict_merge_def as_payload_def
      dict_pop_def mass_append_def record_report_def select_prob_def dd_append_def dd_get_def)

lemma starts_later: "0 < tm \<Longrightarrow> starts tm ms ip = ip @ replicate (length ms) 0"
proof (induction ms arbitrary: tm ip)
  case Nil
  then show ?case by simp
next
  case (Cons m ms)
  then show ?case
    by (simp add: start_history_def replicate_app_Cons_same)
qed

lemma starts_from_reset:
  "starts 0 ms [] = (case ms of [] \<Rightarrow> [] | m0 # rest \<Rightarrow> m0 # replicate (length ms) 0)"
  by (cases ms) (simp_all add: starts_later start_history_def replicate_app_Cons_same)

lemma drop_two_more: "drop n (x # x # replicate n x) = [x, x]"
  by (induction n) simp_all

text \<open>
  Claim C4 fails after cycle 0: a state that was started at cycle 0 with mass 1
  and is started at cycle 1 with mass \<open>1 / 2\<close> reports the window \<open>[0, 0]\<close>.
\<close>

theorem start_window_first_cycle_only_counterexample:
  "start_window 1 (1 / 2) (starts 0 [1] []) = [0, 0]
   \<and> hd (start_window 1 (1 / 2) (starts 0 [1] [])) \<noteq> 1 / 2"
  by (simp add: start_window_def start_history_def slice_def)

text \<open>
  Claim C4, amended. After a reset and one start in each earlier cycle, the window
  that \<open>start\<close> reports is \<open>[m, 0]\<close> at cycle 0 and \<open>[0, 0]\<close> at every later
  cycle: the start mass enters the history at cycle 0 only.
\<close>

theorem start_window_after_reset:
  "start_window (length ms) m (starts 0 ms []) = (if ms = [] then [m, 0] else [0, 0])"
proof (cases ms)
  case Nil
  then show ?thesis by (simp add: start_window_def start_history_def slice_def)
next
  case (Cons m0 rest)
  let ?n = "length rest"
  have s: "starts 0 ms [] = m0 # 0 # replicate ?n 0"
    using Cons by (simp add: starts_later start_history_def)
  have "start_history (length ms) m (starts 0 ms []) = (m0 # 0 # replicate ?n 0) @ [0]"
    unfolding s using Cons by (simp add: start_history_def)
  also have "\<dots> = m0 # 0 # 0 # replicate ?n 0"
    by (simp add: replicate_append_same)
  finally have h: "start_history (length ms) m (starts 0 ms []) = m0 # 0 # 0 # replicate ?n 0" .
  have "slice (m0 # 0 # 0 # replicate ?n 0) (Suc ?n) (Suc ?n + 2) = [0, 0]"
    using drop_two_more[of ?n "0::real"] by (simp add: slice_def)
  with h Cons show ?thesis
    by (simp add: start_window_def)
qed

lemma set_other_probabilities_at:
  "c < length ps \<Longrightarrow>
   set_other_probabilities ps c sibs ! c = ComplementProbability (Some (filter (\<lambda>p. p \<noteq> c) sibs))"
  by (simp add: set_other_probabilities_def)

lemma sample_value_other: "a \<noteq> c \<Longrightarrow> sample_value ps a x ! c = ps ! c"
  by (simp add: sample_value_def split: prob.splits)

lemma length_sample_value: "length (sample_value ps a x) = length ps"
  by (simp add: sample_value_def split: prob.splits)

text \<open>
  Claim C5. Once \<open>set_other_probabilities\<close> has stored the siblings (the complement
  itself left out), the complement's value at cycle \<open>t\<close> is one minus the sum of
  the values \<open>[p.value(t) for p in siblings]\<close> read from the store as it is at the
  call, and raises what they raise. The same holds in the store after a sibling
  was resampled.
\<close>

theorem complement_value:
  assumes "c < length ps0" and "a \<noteq> c"
    and "ps = set_other_probabilities ps0 c sibs"
    and "ps' = sample_value ps a drawn"
  shows "Probability_value (Suc d) ps c t =
           (case Probability_values d ps (filter (\<lambda>p. p \<noteq> c) sibs) t of
              Inl e \<Rightarrow> Inl e
            | Inr (vs, st) \<Rightarrow> Inr (1 - sum_list vs, st))
       \<and> Probability_value (Suc d) ps' c t =
           (case Probability_values d ps' (filter (\<lambda>p. p \<noteq> c) sibs) t of
              Inl e \<Rightarrow> Inl e
            | Inr (vs, st) \<Rightarrow> Inr (1 - sum_list vs, st))"
proof -
  from assms(1,3) have l: "c < length ps"
    by (simp add: set_other_probabilities_def)
  from assms(1,3) have at: "ps ! c = ComplementProbability (Some (filter (\<lambda>p. p \<noteq> c) sibs))"
    by (simp add: set_other_probabilities_at)
  from assms(2,4) at have at': "ps' ! c = ComplementProbability (Some (filter (\<lambda>p. p \<noteq> c) sibs))"
    by (simp add: sample_value_other)
  from l assms(4) have l': "c < length ps'"
    by (simp add: length_sample_value)
  from l at l' at' show ?thesis by simp
qed

theorem complement_value_witness:
  "Probability_value (Suc (Suc 0)) (set_other_probabilities sibling_store 2 [0, 1, 2]) 2 (Some 0)
     = Inr (1 / 2, set_other_probabilities sibling_store 2 [0, 1, 2])
   \<and> Probability_value (Suc (Suc 0))
        (sample_value (set_other_probabilities sibling_store 2 [0, 1, 2]) 0 (4 / 10)) 2 (Some 0)
     = Inr (3 / 10, sample_value (set_other_probabilities sibling_store 2 [0, 1, 2]) 0 (4 / 10))"
proof -
  have l: "2 < length sibling_store" by (simp add: sibling_store_def)
  have n: "(0::nat) \<noteq> 2" by simp
  from complement_value[OF l n refl refl, where sibs = "[0, 1, 2]" and drawn = "4 / 10"
      and d = "Suc 0" and t = "Some 0"]
  show ?thesis
    by (simp add: sibling_store_def set_other_probabilities_def sample_value_def
        new_ProbabilityWithRange_def)
qed

lemma cycles_numeral:
  "cycles (numeral k) c ps =
     (case start_one_cycle c ps of
        Inl e \<Rightarrow> Inl e
      | Inr (c1, ps1) \<Rightarrow> cycles (pred_numeral k) (end_one_cycle c1) ps1)"
  by (simp add: numeral_eq_Suc)

lemmas eval_defs =
  recursion_limit_def Probability_value_numeral cycles_numeral new_ProbabilityWithRange_def times_def
  slice_def dict_merge_def dict_pop_def dict_get0_def dd_get_def dd_append_def
  select_prob_def record_report_def mass_append_def union_keys_def kwargs_clash_def
  as_payload_def forward_history_def transition_variables_def transition_data_def
  start_history_def start_window_def start_data_def on_controller_message_def
  send_to_node_def start_one_cycle_def np_sum_def append_sums_def end_one_cycle_def
  MarkovController_reset_def DataFrame_from_dict_def run_def Let_def

text \<open>
  Claim C1 (the code departs from it). \<open>start\<close> replaces a state's probability by
  the cycle's start mass and \<open>reset\<close> does not restore it, so the second of two
  successive runs is seeded with the start masses of the first run's last cycle.
\<close>

theorem second_run_differs:
  "map_sum id fst (run split_model split_probs)
     = Inr ([(''A'', [3 / 4, 3 / 8]), (''B'', [1 / 4, 5 / 8])], [])
   \<and> (case run split_model split_probs of
        Inl e \<Rightarrow> Inl e
      | Inr (tables, c1, ps1) \<Rightarrow> map_sum id fst (run c1 ps1))
     = Inr ([(''A'', [3 / 8, 3 / 16]), (''B'', [5 / 8, 13 / 16])], [])"
  by (simp add: split_model_def split_probs_def eval_defs)

lemma Probability_value_None_store_aux:
  "t = None \<Longrightarrow> Probability_value d ps a t = Inr (v, st) \<Longrightarrow> st = ps"
  "t = None \<Longrightarrow> Probability_values d ps as t = Inr (vs, st) \<Longrightarrow> st = ps"
proof (induction d ps a t and d ps as t arbitrary: v st and vs st
    rule: Probability_value_Probability_values.induct)
  case (1 ps a t)
  then show ?case by simp
next
  case (2 d ps a t)
  from "2.prems" have l: "\<not> length ps \<le> a"
    by (auto split: if_splits)
  show ?case
  proof (cases "ps ! a")
    case (ProbabilityWithRange p d1 d2 k)
    with "2.prems" l show ?thesis by simp
  next
    case (TimeVaringProbability items cur)
    with "2.prems" l have c: "cur < length items"
      and r: "Probability_value d ps (items ! cur) None = Inr (v, st)"
      by (auto split: if_splits)
    from "2.IH"(1)[OF l TimeVaringProbability "2.prems"(1) c refl r] show ?thesis .
  next
    case (ComplementProbability other)
    show ?thesis
    proof (cases other)
      case None
      with "2.prems" l ComplementProbability show ?thesis by simp
    next
      case (Some others)
      with "2.prems" l ComplementProbability obtain vs where
        r: "Probability_values d ps others t = Inr (vs, st)"
        by (auto split: sum.splits)
      from "2.IH"(3)[OF l ComplementProbability Some "2.prems"(1) r] show ?thesis .
    qed
  qed
next
  case (3 d ps t)
  then show ?case by simp
next
  case (4 d ps a as t)
  from "4.prems" obtain v1 ps1 vs1 where
    a: "Probability_value d ps a t = Inr (v1, ps1)"
    and b: "Probability_values d ps1 as t = Inr (vs1, st)"
    by (auto split: sum.splits)
  from "4.IH"(1)[OF "4.prems"(1) a] have e: "ps1 = ps" .
  from "4.IH"(2)[OF a[symmetric, THEN sym] refl "4.prems"(1) b] e show ?case by simp
qed

lemma verify_characterised:
  "Node_verify states ps n = Inr () \<longleftrightarrow> list_all (node_ok states ps) (subnodes n)"
  "verify_children states ps ns = Inr () \<longleftrightarrow> list_all (node_ok states ps) (concat (map subnodes ns))"
  "verify_sum states ps ch = Inr ()
     \<longleftrightarrow> sum_ok ps ch \<and> list_all (node_ok states ps) (concat (map subnodes ch))"
proof (induction states ps n and states ps ns and states ps ch
    rule: Node_verify_verify_children_verify_sum.induct)
  case (1 states ps uu uv uw ch)
  then show ?case by simp
next
  case (2 states ps ux uy uz ch va)
  then show ?case by simp
next
  case (3 states ps vb vc vd d ve vf)
  then show ?case by (simp split: option.splits)
next
  case (4 states ps)
  then show ?case by simp
next
  case (5 states ps n ns)
  show ?case
  proof (cases "Node_verify states ps n")
    case (Inl e)
    with "5.IH"(1) show ?thesis by auto
  next
    case (Inr u)
    with "5.IH"(1) "5.IH"(2)[OF Inr] show ?thesis by auto
  qed
next
  case (6 states ps ch)
  show ?case
  proof (cases "ch = []")
    case True
    then show ?thesis by (simp add: sum_ok_def)
  next
    case False
    show ?thesis
    proof (cases "Probability_values recursion_limit ps (map trans_prob ch) None")
      case (Inl e)
      with False show ?thesis by (simp add: sum_ok_def)
    next
      case (Inr r)
      obtain vs st where r: "r = (vs, st)" by (cases r)
      show ?thesis
      proof (cases "isclose (sum_list vs) 1")
        case True
        with "6.IH"[OF False Inr r[symmetric]] False Inr r show ?thesis
          by (simp add: sum_ok_def)
      next
        case False
        with \<open>ch \<noteq> []\<close> Inr r show ?thesis by (simp add: sum_ok_def)
      qed
    qed
  qed
qed

text \<open>
  Claim C6, amended. \<open>verify\<close> returns without an error exactly when the
  controller's states sum to one and every state and chance node of its owned
  tree passes the sum check on its children and every transition has a
  \<open>MarkovState\<close> as its one child; otherwise it raises. The sum is taken over
  \<open>value()\<close> with no cycle argument and compared by \<open>math.isclose\<close> (relative
  tolerance, not strict); a transition's own child is not summed. Reading a
  probability with no cycle argument leaves the store as it was.
\<close>

theorem verify_raises_iff:
  "(MarkovController_verify c ps = Inr ()
      \<longleftrightarrow> sum_ok ps (children c)
          \<and> list_all (node_ok (children c) ps) (concat (map subnodes (children c))))
   \<and> map_sum id snd (Probability_values d ps as None)
       = map_sum id (\<lambda>r. ps) (Probability_values d ps as None)"
proof -
  have "map_sum id snd (Probability_values d ps as None)
          = map_sum id (\<lambda>r. ps) (Probability_values d ps as None)"
    by (cases "Probability_values d ps as None")
      (auto dest: Probability_value_None_store_aux(2)[OF refl])
  with verify_characterised(3)[of "children c" ps "children c"] show ?thesis
    unfolding MarkovController_verify_def by blast
qed

text \<open>
  Claim C6 fails as stated: the transition \<open>a_to_b\<close> is a node with a child
  whose probability at cycle 0 is 0.4, which differs from 1 by more than the
  tolerance, and \<open>verify\<close> returns without an error.
\<close>

theorem verify_exempts_transitions_counterexample:
  "MarkovController_verify uneven_model uneven_probs = Inr ()
   \<and> children_of (children uneven_model) (StateTransition ''a_to_b'' 2 [] (Some 1) [] [])
       = [MarkovState ''B'' 1 [] [StateTransition ''b_to_b'' 2 [] (Some 1) [] []] []]
   \<and> Probability_values recursion_limit uneven_probs
        (map trans_prob
           (children_of (children uneven_model) (StateTransition ''a_to_b'' 2 [] (Some 1) [] [])))
        (Some 0) = Inr ([4 / 10], uneven_probs)
   \<and> 1 / 10 ^ 9 \<le> \<bar>4 / 10 - (1::real)\<bar>"
  by (simp add: uneven_model_def uneven_probs_def MarkovController_verify_def isclose_def
      recursion_limit_def Probability_value_numeral new_ProbabilityWithRange_def)

theorem verify_raises_iff_witness:
  "MarkovController_verify uneven_model uneven_probs = Inr ()
   \<and> sum_ok uneven_probs (children uneven_model)
   \<and> list_all (node_ok (children uneven_model) uneven_probs)
        (concat (map subnodes (children uneven_model)))"
proof -
  have "sum_ok uneven_probs (children uneven_model)
      \<and> list_all (node_ok (children uneven_model) uneven_probs)
           (concat (map subnodes (children uneven_model)))"
    by (simp add: uneven_model_def uneven_probs_def sum_ok_def isclose_def
        recursion_limit_def Probability_value_numeral new_ProbabilityWithRange_def)
  with verify_raises_iff[of uneven_model uneven_probs] show ?thesis by blast
qed

subsection \<open>Mass conservation\<close>

lemma same_source_refl [simp]: "same_source p p"
  by (cases p) simp_all


lemma extends_refl [simp]: "extends ps ps"
  by (simp add: extends_def)

























lemma map_of_dict_merge_None:
  "map_of (dict_merge d e) k = None \<Longrightarrow> map_of d k = None"
  unfolding dict_merge_def
proof (induction e arbitrary: d)
  case Nil
  then show ?case by simp
next
  case (Cons kv e)
  obtain k' v' where kv: "kv = (k', v')" by (cases kv)
  from Cons.prems kv have "map_of (fold (\<lambda>(k, v). AList.update k v) e (AList.update k' v' d)) k = None"
    by simp
  from Cons.IH[OF this] show ?case
    by (auto simp: update_conv' split: if_splits)
qed








lemma selected_zero [simp]: "selected m 0 0 = 0"
  by (simp add: selected_def)



















































lemma reset_node_facts [simp]:
  "shape (Node_reset n) = shape n" "regular 0 (Node_reset n)" "stored (Node_reset n) = 0"
proof -
  show "shape (Node_reset n) = shape n"
    by (induction n) simp_all
  show "regular 0 (Node_reset n)"
    by (induction n) (simp_all add: list_all_iff)
  show "stored (Node_reset n) = 0"
    by (induction n) (simp_all add: sum_list_0 comp_def cong: map_cong)
qed











end
